theory Spec2Isabelle
  imports Complex_Main
begin

section \<open>The trading loop of \<^verbatim>\<open>onE(agg).py\<close>\<close>

text \<open>
  Numbers. Prices, balances, volumes and confidences are Python floats in the source.
  They are modelled as exact reals (the specification calls them decimals); binary64
  rounding is outside the model. \<^verbatim>\<open>None\<close> is \<open>None\<close> of an option type, a raised
  exception is a value of \<open>error\<close>.
\<close>

datatype error =
    TypeError            \<comment> \<open>an operator applied to \<^verbatim>\<open>None\<close>\<close>
  | ZeroDivisionError    \<comment> \<open>float division by zero\<close>
  | IndexError           \<comment> \<open>\<^verbatim>\<open>df.iloc[-1]\<close> on an empty frame\<close>
  | ValueError           \<comment> \<open>\<^verbatim>\<open>max\<close> of an empty sequence\<close>
  | ExternalError string \<comment> \<open>an exception raised by a collaborator (exchange client, model store)\<close>

subsection \<open>Position Manager (lines 58--89)\<close>

text \<open>
  \<^verbatim>\<open>log\<close> (lines 50--55) prints a line and appends it to a file; it touches no
  state of the program and is left out of the model.
\<close>

record PositionManager =
  in_position :: bool
  entry_price :: "real option"
  take_profit :: "real option"
  stop_loss :: "real option"
  quantity :: "real option"

text \<open>\<^verbatim>\<open>PositionManager.__init__\<close>, lines 59--64.\<close>

definition PositionManager_init :: PositionManager where
  "PositionManager_init =
     \<lparr>in_position = False, entry_price = None, take_profit = None,
      stop_loss = None, quantity = None\<rparr>"

text \<open>
  \<^verbatim>\<open>open_position(self, price, quantity, tp_multiplier=1.007, sl_multiplier=0.985)\<close>,
  lines 66--72. There is no test of \<^verbatim>\<open>self.in_position\<close>: the five fields are assigned
  whatever the state was. The two defaults of the signature are the constants below; the
  one call of the source (line 185) passes neither multiplier.
\<close>

definition tp_multiplier_default :: real where
  "tp_multiplier_default = 1.007"

definition sl_multiplier_default :: real where
  "sl_multiplier_default = 0.985"

definition open_position ::
  "PositionManager \<Rightarrow> real \<Rightarrow> real \<Rightarrow> real \<Rightarrow> real \<Rightarrow> PositionManager" where
  "open_position self price qty tp_multiplier sl_multiplier =
     self\<lparr>in_position := True,
          entry_price := Some price,
          quantity := Some qty,
          take_profit := Some (price * tp_multiplier),
          stop_loss := Some (price * sl_multiplier)\<rparr>"

text \<open>
  \<^verbatim>\<open>should_close_position(self, current_price)\<close>, lines 74--81. The two comparisons
  read \<^verbatim>\<open>self.take_profit\<close> and \<^verbatim>\<open>self.stop_loss\<close> without looking at
  \<^verbatim>\<open>self.in_position\<close>; comparing a float with \<^verbatim>\<open>None\<close> raises \<^verbatim>\<open>TypeError\<close>.
  The second comparison is evaluated only when the first one is false.
\<close>

definition should_close_position :: "PositionManager \<Rightarrow> real \<Rightarrow> error + bool" where
  "should_close_position self current_price =
     (case take_profit self of
        None \<Rightarrow> Inl TypeError
      | Some tp \<Rightarrow>
          if current_price \<ge> tp then Inr True
          else (case stop_loss self of
                  None \<Rightarrow> Inl TypeError
                | Some sl \<Rightarrow> if current_price \<le> sl then Inr True else Inr False))"

text \<open>\<^verbatim>\<open>close_position(self)\<close>, lines 83--89.\<close>

definition close_position :: "PositionManager \<Rightarrow> PositionManager" where
  "close_position self =
     self\<lparr>in_position := False, entry_price := None, take_profit := None,
          stop_loss := None, quantity := None\<rparr>"

text \<open>
  The two shapes a position manager takes in a run: \<open>Flat\<close> (nothing set) and
  \<open>Long\<close> (everything set).
\<close>

definition is_flat :: "PositionManager \<Rightarrow> bool" where
  "is_flat self \<longleftrightarrow>
     \<not> in_position self \<and> entry_price self = None \<and> take_profit self = None \<and>
     stop_loss self = None \<and> quantity self = None"

definition is_long :: "PositionManager \<Rightarrow> bool" where
  "is_long self \<longleftrightarrow>
     in_position self \<and> entry_price self \<noteq> None \<and> take_profit self \<noteq> None \<and>
     stop_loss self \<noteq> None \<and> quantity self \<noteq> None"

definition consistent :: "PositionManager \<Rightarrow> bool" where
  "consistent self \<longleftrightarrow> (if in_position self then is_long self else is_flat self)"

subsection \<open>Cooldown gate (lines 142--149)\<close>

text \<open>
  A \<^verbatim>\<open>datetime\<close> is a count of microseconds. \<^verbatim>\<open>timedelta.seconds\<close> is the seconds
  field of the normalised difference (days, seconds, microseconds): whole seconds, modulo
  one day, the days left out. \<open>div\<close> and \<open>mod\<close> on \<open>int\<close> round down, as the
  normalisation does.
\<close>

definition timedelta_seconds :: "int \<Rightarrow> int" where
  "timedelta_seconds delta_us = (delta_us div 1000000) mod 86400"

text \<open>
  \<^verbatim>\<open>can_trade()\<close> reads the clock up to twice: \<open>now_test\<close> in the condition (only when
  a timestamp is stored), \<open>now_set\<close> in the assignment. The result is the returned
  boolean and the new value of the global \<^verbatim>\<open>last_trade_time\<close>. A \<^verbatim>\<open>datetime\<close> is
  never falsy, so \<^verbatim>\<open>not last_trade_time\<close> is the test for \<^verbatim>\<open>None\<close>.
\<close>

definition can_trade :: "int option \<Rightarrow> int \<Rightarrow> int \<Rightarrow> bool \<times> int option" where
  "can_trade last_trade_time now_test now_set =
     (case last_trade_time of
        None \<Rightarrow> (True, Some now_set)
      | Some t \<Rightarrow>
          if timedelta_seconds (now_test - t) > 60 then (True, Some now_set)
          else (False, Some t))"

subsection \<open>Frames, indicators and labels (lines 92--115)\<close>

record bar =
  timestamp :: int
  open_price :: real
  high :: real
  low :: real
  close :: real
  volume :: real

record row = bar +
  indicators :: "real list"

text \<open>
  A cell of a pandas float column that a division produced: pandas divides by zero
  without raising (\<open>x / 0\<close> is an infinity, \<open>0 / 0\<close> is NaN), and
  \<^verbatim>\<open>shift\<close> fills with NaN.
\<close>

datatype npfloat = Finite real | PosInf | NegInf | NaN

definition np_div :: "real \<Rightarrow> real \<Rightarrow> npfloat" where
  "np_div a b =
     (if b \<noteq> 0 then Finite (a / b)
      else if a > 0 then PosInf else if a < 0 then NegInf else NaN)"

fun np_minus :: "npfloat \<Rightarrow> real \<Rightarrow> npfloat" where
  "np_minus (Finite x) c = Finite (x - c)"
| "np_minus v c = v"

fun np_greater :: "npfloat \<Rightarrow> real \<Rightarrow> bool" where
  "np_greater (Finite x) c = (x > c)"
| "np_greater PosInf c = True"
| "np_greater v c = False"

fun np_less :: "npfloat \<Rightarrow> real \<Rightarrow> bool" where
  "np_less (Finite x) c = (x < c)"
| "np_less NegInf c = True"
| "np_less v c = False"

record labelled = row +
  future_return :: npfloat
  target :: int

text \<open>
  \<^verbatim>\<open>calculate_indicators(df, bid_volume, ask_volume)\<close>, lines 92--107. The twelve
  columns come from the \<^verbatim>\<open>ta\<close> library and pandas rolling windows, which are not
  part of the repository: \<open>columns df obi i\<close> stands for the twelve values of row \<open>i\<close>,
  \<open>None\<close> when one of them is NaN. What is modelled is the scalar division of line 105,
  which raises on a zero denominator, and \<^verbatim>\<open>dropna()\<close>, which keeps the rows without
  NaN in their order.
\<close>

definition calculate_indicators ::
  "(bar list \<Rightarrow> real \<Rightarrow> nat \<Rightarrow> real list option) \<Rightarrow> bar list \<Rightarrow> real \<Rightarrow> real \<Rightarrow> error + row list" where
  "calculate_indicators columns df bid_volume ask_volume =
     (if bid_volume + ask_volume = 0 then Inl ZeroDivisionError
      else
        let obi = (bid_volume - ask_volume) / (bid_volume + ask_volume) in
        Inr (List.map_filter
               (\<lambda>i. map_option (\<lambda>v. bar.extend (df ! i) \<lparr>indicators = v\<rparr>) (columns df obi i))
               [0..<length df]))"

text \<open>
  \<^verbatim>\<open>add_target(df, horizon=3)\<close>, lines 110--115. \<^verbatim>\<open>shift(-horizon)\<close> leaves NaN in
  the last \<open>horizon\<close> rows; the target is 0, then 1 where the return is above 0.002,
  then -1 where it is below -0.002; \<^verbatim>\<open>dropna()\<close> removes the rows whose return is NaN.
\<close>

definition label_row :: "row list \<Rightarrow> nat \<Rightarrow> nat \<Rightarrow> labelled" where
  "label_row df horizon i =
     (let fr = (if i + horizon < length df
                then np_minus (np_div (close (df ! (i + horizon))) (close (df ! i))) 1
                else NaN);
          t0 = (0::int);
          t1 = (if np_greater fr 0.002 then 1 else t0);
          t2 = (if np_less fr (- 0.002) then - 1 else t1)
      in row.extend (df ! i) \<lparr>future_return = fr, target = t2\<rparr>)"

definition add_target :: "row list \<Rightarrow> nat \<Rightarrow> labelled list" where
  "add_target df horizon =
     filter (\<lambda>r. future_return r \<noteq> NaN) (map (label_row df horizon) [0..<length df])"

definition horizon_default :: nat where
  "horizon_default = 3"

subsection \<open>Prediction (lines 130--135)\<close>

text \<open>The fitted classifier, as the two methods the source calls on it.\<close>

record model =
  model_predict_proba :: "real list \<Rightarrow> real list"
  model_predict :: "real list \<Rightarrow> int"

fun py_max :: "real list \<Rightarrow> error + real" where
  "py_max [] = Inl ValueError"
| "py_max (x # xs) = Inr (fold max xs x)"

text \<open>
  \<^verbatim>\<open>predict(df, model)\<close>: \<^verbatim>\<open>df.iloc[-1]\<close> is the last row of the frame it is given,
  and raises on an empty frame.
\<close>

definition predict :: "labelled list \<Rightarrow> model \<Rightarrow> error + int \<times> real" where
  "predict df m =
     (if df = [] then Inl IndexError
      else
        let latest = indicators (last df);
            proba = model_predict_proba m latest;
            pred = model_predict m latest
        in case py_max proba of Inl e \<Rightarrow> Inl e | Inr c \<Rightarrow> Inr (pred, c))"

subsection \<open>One decision cycle (lines 138--204)\<close>

definition CONFIDENCE_THRESHOLD :: real where
  "CONFIDENCE_THRESHOLD = 0.6"

text \<open>
  Python's \<^verbatim>\<open>round(x, ndigits)\<close> on exact values: to the nearest multiple of
  \<open>10 ^ -ndigits\<close>, a tie to the even neighbour.
\<close>

definition round_half_even :: "real \<Rightarrow> int" where
  "round_half_even x =
     (let f = \<lfloor>x\<rfloor>; d = x - of_int f
      in if d < 1 / 2 then f else if d > 1 / 2 then f + 1
         else if even f then f else f + 1)"

definition py_round :: "real \<Rightarrow> nat \<Rightarrow> real" where
  "py_round x ndigits = of_int (round_half_even (x * 10 ^ ndigits)) / 10 ^ ndigits"

text \<open>The module's globals that a cycle changes.\<close>

record bot_state =
  position :: PositionManager
  last_trade_time :: "int option"

text \<open>The two order requests of the source: a market BUY by quote amount, a market SELL by quantity.\<close>

datatype order = Buy real | Sell "real option"

text \<open>
  What the outside world answers during one cycle: the two clock readings of
  \<^verbatim>\<open>can_trade\<close>, the four calls on the exchange client, the indicator columns, the
  model that \<^verbatim>\<open>train_or_load_model\<close> returns for the labelled frame, and the answer
  of \<^verbatim>\<open>create_order\<close> (a receipt, or the exception it raises).
\<close>

record cycle_env =
  clock_test :: int
  clock_set :: int
  get_price :: "error + real option"
  get_usdt_balance :: "error + real"
  get_order_book_stats :: "error + real \<times> real"
  get_historical_data :: "error + bar list"
  columns_of :: "bar list \<Rightarrow> real \<Rightarrow> nat \<Rightarrow> real list option"
  train_or_load_model :: "labelled list \<Rightarrow> error + model"
  create_order :: "order \<Rightarrow> error + string"

text \<open>
  The outcome of a cycle: the globals when \<^verbatim>\<open>main\<close> is left, the order requests it
  made, and the exception that left \<^verbatim>\<open>main\<close>, if one did.
\<close>

record cycle_result =
  state_after :: bot_state
  orders :: "order list"
  raised :: "error option"

definition returns :: "bot_state \<Rightarrow> order list \<Rightarrow> cycle_result" where
  "returns st os = \<lparr>state_after = st, orders = os, raised = None\<rparr>"

definition raises :: "bot_state \<Rightarrow> error \<Rightarrow> cycle_result" where
  "raises st e = \<lparr>state_after = st, orders = [], raised = Some e\<rparr>"

text \<open>
  Lines 157--168 of \<^verbatim>\<open>main\<close>: the snapshot and the signal. Nothing here is inside a
  \<^verbatim>\<open>try\<close>. Line 160 formats \<^verbatim>\<open>(bid_volume - ask_volume) / (bid_volume + ask_volume)\<close>
  for the log, which raises on a zero denominator. The result is
  \<^verbatim>\<open>(live_price, usdt_balance, prediction, confidence)\<close>.
\<close>

definition main_fetch :: "cycle_env \<Rightarrow> error + (real option \<times> real \<times> int \<times> real)" where
  "main_fetch env =
     (case get_price env of Inl e \<Rightarrow> Inl e | Inr live_price \<Rightarrow>
      case get_usdt_balance env of Inl e \<Rightarrow> Inl e | Inr usdt_balance \<Rightarrow>
      case get_order_book_stats env of Inl e \<Rightarrow> Inl e | Inr (bid_volume, ask_volume) \<Rightarrow>
      if bid_volume + ask_volume = 0 then Inl ZeroDivisionError else
      case get_historical_data env of Inl e \<Rightarrow> Inl e | Inr df0 \<Rightarrow>
      case calculate_indicators (columns_of env) df0 bid_volume ask_volume of
        Inl e \<Rightarrow> Inl e | Inr df1 \<Rightarrow>
      let df = add_target df1 horizon_default in
      case train_or_load_model env df of Inl e \<Rightarrow> Inl e | Inr m \<Rightarrow>
      case predict df m of Inl e \<Rightarrow> Inl e | Inr (prediction, confidence) \<Rightarrow>
      Inr (live_price, usdt_balance, prediction, confidence))"

text \<open>
  Lines 170--204 of \<^verbatim>\<open>main\<close>: the decision. \<^verbatim>\<open>live_price\<close> is \<^verbatim>\<open>None\<close> when the
  ticker list has no entry for the symbol; dividing by it, or comparing it, raises
  \<^verbatim>\<open>TypeError\<close>. Each \<^verbatim>\<open>try\<close> covers \<^verbatim>\<open>create_order\<close> and the state change after
  it, and \<^verbatim>\<open>except Exception\<close> only logs.
\<close>

definition main_decide ::
  "(order \<Rightarrow> error + string) \<Rightarrow> bot_state \<Rightarrow> real option \<Rightarrow> real \<Rightarrow> int \<Rightarrow> real \<Rightarrow> cycle_result" where
  "main_decide submit st live_price usdt_balance prediction confidence =
     (if confidence < CONFIDENCE_THRESHOLD then returns st []
      else if \<not> in_position (position st) then
        (if prediction = 1 then
           let trade_usdt = py_round (usdt_balance * 0.20) 2 in
           (case live_price of
              None \<Rightarrow> raises st TypeError
            | Some p \<Rightarrow>
                if p = 0 then raises st ZeroDivisionError
                else
                  let btc_amount = py_round (trade_usdt / p) 6 in
                  (case submit (Buy trade_usdt) of
                     Inl e \<Rightarrow> returns st [Buy trade_usdt]
                   | Inr receipt \<Rightarrow>
                       returns
                         (st\<lparr>position :=
                               open_position (position st) p btc_amount
                                 tp_multiplier_default sl_multiplier_default\<rparr>)
                         [Buy trade_usdt]))
         else returns st [])
      else if prediction = - 1 then
        (case live_price of
           None \<Rightarrow> raises st TypeError
         | Some p \<Rightarrow>
             (case should_close_position (position st) p of
                Inl e \<Rightarrow> raises st e
              | Inr False \<Rightarrow> returns st []
              | Inr True \<Rightarrow>
                  (case submit (Sell (quantity (position st))) of
                     Inl e \<Rightarrow> returns st [Sell (quantity (position st))]
                   | Inr receipt \<Rightarrow>
                       returns (st\<lparr>position := close_position (position st)\<rparr>)
                         [Sell (quantity (position st))])))
      else returns st [])"

text \<open>
  \<^verbatim>\<open>main()\<close>, lines 151--204: the cooldown gate first, then the two parts above. The
  gate's assignment to \<^verbatim>\<open>last_trade_time\<close> stays when a later line raises.
\<close>

definition main :: "cycle_env \<Rightarrow> bot_state \<Rightarrow> cycle_result" where
  "main env st =
     (case can_trade (last_trade_time st) (clock_test env) (clock_set env) of
        (ok, stamp) \<Rightarrow>
          if \<not> ok then returns (st\<lparr>last_trade_time := stamp\<rparr>) []
          else
            let st1 = st\<lparr>last_trade_time := stamp\<rparr> in
            (case main_fetch env of
               Inl e \<Rightarrow> raises st1 e
             | Inr (live_price, usdt_balance, prediction, confidence) \<Rightarrow>
                 main_decide (create_order env) st1 live_price usdt_balance
                   prediction confidence))"

definition initial_state :: bot_state where
  "initial_state = \<lparr>position = PositionManager_init, last_trade_time = None\<rparr>"

subsection \<open>The loop (lines 207--211)\<close>

text \<open>
  \<^verbatim>\<open>run_forever()\<close> is \<^verbatim>\<open>while True: main(); log(...); time.sleep(60)\<close>, with no
  \<^verbatim>\<open>try\<close>. The list holds what the outside world answers in the successive iterations,
  one entry each. \<open>Inr st\<close>: every one of these iterations ran and the loop goes on,
  with globals \<open>st\<close>. \<open>Inl e\<close>: the exception \<open>e\<close> left \<^verbatim>\<open>main\<close> in one of them, and
  with it the loop and the process; the entries after it are never asked for.
\<close>

fun run_forever :: "cycle_env list \<Rightarrow> bot_state \<Rightarrow> error + bot_state" where
  "run_forever [] st = Inr st"
| "run_forever (env # envs) st =
     (let r = main env st
      in case raised r of
           Some e \<Rightarrow> Inl e
         | None \<Rightarrow> run_forever envs (state_after r))"

subsection \<open>Sample inputs\<close>

text \<open>
  A history of five bars whose last close jumps, indicator columns that are defined on
  every row (the close and the order-book imbalance), and an order book with bid volume
  30 and ask volume 10.
\<close>

definition sample_bar :: "int \<Rightarrow> real \<Rightarrow> bar" where
  "sample_bar t c =
     \<lparr>timestamp = t, open_price = c, high = c, low = c, close = c, volume = 1\<rparr>"

definition sample_bars :: "bar list" where
  "sample_bars =
     [sample_bar 1 100, sample_bar 2 100, sample_bar 3 100, sample_bar 4 100,
      sample_bar 5 104]"

definition sample_columns :: "bar list \<Rightarrow> real \<Rightarrow> nat \<Rightarrow> real list option" where
  "sample_columns df obi i = Some [close (df ! i), obi]"

text \<open>A model that answers the same class and probabilities on every row.\<close>

definition constant_model :: "int \<Rightarrow> real list \<Rightarrow> model" where
  "constant_model cls proba =
     \<lparr>model_predict_proba = (\<lambda>x. proba), model_predict = (\<lambda>x. cls)\<rparr>"


definition accept :: "order \<Rightarrow> error + string" where
  "accept ord = Inr ''FILLED''"

definition reject :: "order \<Rightarrow> error + string" where
  "reject ord = Inl (ExternalError ''rejected'')"

definition sample_env ::
  "real option \<Rightarrow> real \<Rightarrow> real \<times> real \<Rightarrow> model \<Rightarrow> (order \<Rightarrow> error + string) \<Rightarrow> cycle_env" where
  "sample_env price balance book m submit =
     \<lparr>clock_test = 0, clock_set = 0,
      get_price = Inr price,
      get_usdt_balance = Inr balance,
      get_order_book_stats = Inr book,
      get_historical_data = Inr sample_bars,
      columns_of = sample_columns,
      train_or_load_model = (\<lambda>df. Inr m),
      create_order = submit\<rparr>"

text \<open>The position of the specification's examples: entered at 100 with quantity 2.\<close>

definition long_100 :: PositionManager where
  "long_100 =
     open_position PositionManager_init 100 2 tp_multiplier_default sl_multiplier_default"

text \<open>The globals with that position and no cooldown timestamp yet.\<close>

definition long_state :: bot_state where
  "long_state = \<lparr>position = long_100, last_trade_time = None\<rparr>"

section \<open>Properties\<close>

subsection \<open>The gate and the two halves of a cycle\<close>

lemma main_gate_closed:
  "\<not> fst (can_trade (last_trade_time st) (clock_test env) (clock_set env)) \<Longrightarrow>
   main env st = returns st []"
proof -
  assume closed: "\<not> fst (can_trade (last_trade_time st) (clock_test env) (clock_set env))"
  then obtain t where t: "last_trade_time st = Some t"
    by (cases "last_trade_time st") (auto simp: can_trade_def)
  have same: "st\<lparr>last_trade_time := Some t\<rparr> = st"
    using t by (cases st) simp
  from closed show ?thesis
    by (simp add: main_def can_trade_def t same split: if_splits)
qed

lemma main_gate_open:
  "fst (can_trade (last_trade_time st) (clock_test env) (clock_set env)) \<Longrightarrow>
   main env st =
     (case main_fetch env of
        Inl e \<Rightarrow> raises (st\<lparr>last_trade_time := Some (clock_set env)\<rparr>) e
      | Inr (live_price, usdt_balance, prediction, confidence) \<Rightarrow>
          main_decide (create_order env) (st\<lparr>last_trade_time := Some (clock_set env)\<rparr>)
            live_price usdt_balance prediction confidence)"
  by (cases "last_trade_time st") (auto simp: main_def can_trade_def Let_def split: if_splits)

lemma main_decide_failed_order:
  "ord \<in> set (orders (main_decide submit st lp bal cls conf)) \<Longrightarrow> submit ord = Inl e \<Longrightarrow>
   main_decide submit st lp bal cls conf = returns st [ord]"
  by (auto simp: main_decide_def returns_def raises_def Let_def
           split: if_splits option.splits sum.splits bool.splits)

lemma main_decide_in_position:
  "in_position (position st) \<Longrightarrow>
   position (state_after (main_decide submit st lp bal cls conf)) = position st \<or>
   position (state_after (main_decide submit st lp bal cls conf)) = close_position (position st)"
  by (auto simp: main_decide_def returns_def raises_def Let_def
           split: if_splits option.splits sum.splits bool.splits)

lemma main_in_position:
  "in_position (position st) \<Longrightarrow>
   position (state_after (main env st)) = position st \<or>
   position (state_after (main env st)) = close_position (position st)"
proof (cases "fst (can_trade (last_trade_time st) (clock_test env) (clock_set env))")
  case False
  then show ?thesis by (simp add: main_gate_closed returns_def)
next
  case True
  assume pos: "in_position (position st)"
  show ?thesis
  proof (cases "main_fetch env")
    case (Inl e)
    with True show ?thesis by (simp add: main_gate_open raises_def)
  next
    case (Inr snap)
    obtain lp bal cls conf where snap: "snap = (lp, bal, cls, conf)"
      by (cases snap) auto
    from pos have "in_position (position (st\<lparr>last_trade_time := Some (clock_set env)\<rparr>))"
      by simp
    from main_decide_in_position [OF this, of "create_order env" lp bal cls conf]
    show ?thesis using True Inr snap by (simp add: main_gate_open)
  qed
qed

lemma main_failed_order:
  assumes "ord \<in> set (orders (main env st))" and "create_order env ord = Inl e"
  shows "raised (main env st) = None \<and> position (state_after (main env st)) = position st"
proof (cases "fst (can_trade (last_trade_time st) (clock_test env) (clock_set env))")
  case False
  with assms show ?thesis by (simp add: main_gate_closed returns_def)
next
  case True
  show ?thesis
  proof (cases "main_fetch env")
    case (Inl e')
    with True assms show ?thesis by (simp add: main_gate_open raises_def)
  next
    case (Inr snap)
    obtain lp bal cls conf where snap: "snap = (lp, bal, cls, conf)"
      by (cases snap) auto
    let ?st1 = "st\<lparr>last_trade_time := Some (clock_set env)\<rparr>"
    have m: "main env st = main_decide (create_order env) ?st1 lp bal cls conf"
      using True Inr snap by (simp add: main_gate_open)
    with assms have "main env st = returns ?st1 [ord]"
      using main_decide_failed_order [of ord "create_order env" ?st1 lp bal cls conf e] by simp
    then show ?thesis by (simp add: returns_def)
  qed
qed

subsection \<open>Position Manager\<close>




subsection \<open>Cooldown gate\<close>

text \<open>
  C2, as the code has it. \<^verbatim>\<open>can_trade\<close> returns true and stores the current time when
  no timestamp is stored; with a stored timestamp \<open>t\<close> and an elapsed time from zero up
  to one day, it returns true and stores the current time exactly when at least 61
  seconds have elapsed (the whole seconds exceed 60), and otherwise returns false and
  leaves the timestamp unchanged.
\<close>

theorem C2_can_trade:
  "can_trade None now_test now_set = (True, Some now_set) \<and>
   (0 \<le> now_test - t \<and> now_test - t < 86400 * 1000000 \<longrightarrow>
      can_trade (Some t) now_test now_set =
        (if now_test - t \<ge> 61 * 1000000 then (True, Some now_set) else (False, Some t)))"
proof -
  have "timedelta_seconds d > 60 \<longleftrightarrow> d \<ge> 61 * 1000000"
    if "0 \<le> d" "d < 86400 * 1000000" for d :: int
  proof -
    from that have "0 \<le> d div 1000000" "d div 1000000 < 86400" by simp_all
    then have "timedelta_seconds d = d div 1000000"
      by (simp add: timedelta_seconds_def)
    then show ?thesis by simp linarith
  qed
  then show ?thesis by (simp add: can_trade_def)
qed

text \<open>After 59 seconds, after 60.999999 seconds and after 61 seconds.\<close>

theorem C2_can_trade_witness:
  "can_trade (Some 0) 59000000 59000001 = (False, Some 0) \<and>
   can_trade (Some 0) 60999999 61000000 = (False, Some 0) \<and>
   can_trade (Some 0) 61000000 61000003 = (True, Some 61000003)"
  using C2_can_trade [of 59000000 59000001 0] C2_can_trade [of 60999999 61000000 0]
     C2_can_trade [of 61000000 61000003 0]
  by simp

text \<open>
  C2 as stated fails when exactly 60 seconds have elapsed: the call returns false and
  keeps the old timestamp.
\<close>

theorem C2_sixty_seconds_counterexample:
  "can_trade (Some 0) 60000000 60000000 = (False, Some 0)"
  by (simp add: can_trade_def timedelta_seconds_def)

subsection \<open>The row that is predicted on\<close>

text \<open>
  Every row that \<^verbatim>\<open>add_target\<close> keeps has a bar \<open>horizon\<close> places after it: the last
  \<open>horizon\<close> rows of the frame never reach \<^verbatim>\<open>predict\<close>.
\<close>

lemma add_target_rows:
  "r \<in> set (add_target df horizon) \<Longrightarrow>
   \<exists>i. i + horizon < length df \<and> r = label_row df horizon i"
proof -
  assume "r \<in> set (add_target df horizon)"
  then obtain i where i: "i < length df" "r = label_row df horizon i" "future_return r \<noteq> NaN"
    by (auto simp: add_target_def)
  have "future_return (label_row df horizon i) = NaN" if "\<not> i + horizon < length df"
    using that by (simp add: label_row_def Let_def row.defs)
  with i show ?thesis by blast
qed

lemma timestamp_label_row: "timestamp (label_row df horizon i) = timestamp (df ! i)"
  by (simp add: label_row_def Let_def row.defs)

lemma indicators_label_row: "indicators (label_row df horizon i) = indicators (df ! i)"
  by (simp add: label_row_def Let_def row.defs)


lemma add_target_drops_latest:
  assumes "0 < horizon" and "df \<noteq> []" and "distinct (map timestamp df)"
  shows "timestamp (last df) \<notin> timestamp ` set (add_target df horizon)"
proof
  assume "timestamp (last df) \<in> timestamp ` set (add_target df horizon)"
  then obtain r where r: "r \<in> set (add_target df horizon)" "timestamp r = timestamp (last df)"
    by auto
  from add_target_rows [OF r(1)] obtain i
    where i: "i + horizon < length df" "r = label_row df horizon i"
    by blast
  let ?n = "length df - 1"
  from assms(2) have l: "last df = df ! ?n" by (simp add: last_conv_nth)
  have in_range: "i < length (map timestamp df)" "?n < length (map timestamp df)"
    using i(1) assms(2) by simp_all
  from r(2) i l have "map timestamp df ! i = map timestamp df ! ?n"
    using i(1) assms(2) by (simp add: timestamp_label_row)
  with in_range have "i = ?n"
    using nth_eq_iff_index_eq [OF assms(3), of i ?n] by blast
  with i(1) assms(1) show False by simp
qed



subsection \<open>Failed orders\<close>

lemma sample_buy_rejected:
  "orders (main (sample_env (Some 100) 1000 (30, 10)
        (constant_model 1 [0.10, 0.15, 0.75]) reject) initial_state) = [Buy 200]"
  by code_simp

text \<open>
  C4. In a cycle whose order submission raises (the order \<open>ord\<close> was requested and
  \<^verbatim>\<open>create_order\<close> answered it with an exception), no exception leaves \<^verbatim>\<open>main\<close> and
  the position manager is what it was before the cycle.
\<close>

theorem C4_failed_order_keeps_position:
  "ord \<in> set (orders (main env st)) \<Longrightarrow> create_order env ord = Inl e \<Longrightarrow>
   raised (main env st) = None \<and> position (state_after (main env st)) = position st"
  by (rule main_failed_order)

text \<open>A rejected BUY from the flat state: balance 1000, price 100.\<close>

theorem C4_failed_order_keeps_position_witness:
  "Buy 200 \<in> set (orders (main (sample_env (Some 100) 1000 (30, 10)
        (constant_model 1 [0.10, 0.15, 0.75]) reject) initial_state)) \<and>
   reject (Buy 200) = Inl (ExternalError ''rejected'') \<and>
   raised (main (sample_env (Some 100) 1000 (30, 10)
        (constant_model 1 [0.10, 0.15, 0.75]) reject) initial_state) = None \<and>
   position (state_after (main (sample_env (Some 100) 1000 (30, 10)
        (constant_model 1 [0.10, 0.15, 0.75]) reject) initial_state)) = PositionManager_init"
proof -
  let ?env = "sample_env (Some 100) 1000 (30, 10) (constant_model 1 [0.10, 0.15, 0.75]) reject"
  have a: "Buy 200 \<in> set (orders (main ?env initial_state))"
    by (subst sample_buy_rejected) simp
  have b: "create_order ?env (Buy 200) = Inl (ExternalError ''rejected'')"
    by (simp add: sample_env_def reject_def)
  have c: "reject (Buy 200) = Inl (ExternalError ''rejected'')" by (simp add: reject_def)
  have d: "position initial_state = PositionManager_init" by (simp add: initial_state_def)
  from C4_failed_order_keeps_position [OF a b] a c d show ?thesis by simp
qed

subsection \<open>The decision\<close>

text \<open>The decision of lines 170--204 once the confidence gate is passed, by state.\<close>

lemma main_decide_long:
  assumes "confidence \<ge> 0.6" and "in_position (position st)"
  shows "main_decide submit st live_price usdt_balance prediction confidence =
     (if prediction = - 1 then
        (case live_price of
           None \<Rightarrow> raises st TypeError
         | Some p \<Rightarrow>
             (case should_close_position (position st) p of
                Inl e \<Rightarrow> raises st e
              | Inr False \<Rightarrow> returns st []
              | Inr True \<Rightarrow>
                  (case submit (Sell (quantity (position st))) of
                     Inl e \<Rightarrow> returns st [Sell (quantity (position st))]
                   | Inr receipt \<Rightarrow>
                       returns (st\<lparr>position := close_position (position st)\<rparr>)
                         [Sell (quantity (position st))])))
      else returns st [])"
  using assms by (simp add: main_decide_def CONFIDENCE_THRESHOLD_def)


text \<open>
  C5. In a cycle that passes the cooldown gate and computes the signal
  \<open>(prediction, confidence)\<close> with \<open>confidence \<ge> 0.6\<close>, starting with
  \<^verbatim>\<open>in_position\<close> set: a SELL order (for the held quantity) is requested if and only if
  the class is -1 and \<^verbatim>\<open>should_close_position(live_price)\<close> returns true, and the
  position is closed exactly when that order is also accepted. In every other case no
  order is made and the position is left as it was.
\<close>

theorem C5_sell_iff:
  assumes "fst (can_trade (last_trade_time st) (clock_test env) (clock_set env))"
    and "main_fetch env = Inr (live_price, usdt_balance, prediction, confidence)"
    and "confidence \<ge> 0.6"
    and "in_position (position st)"
  shows "orders (main env st) =
           (if prediction = - 1 \<and>
               (case live_price of
                  None \<Rightarrow> False
                | Some p \<Rightarrow> should_close_position (position st) p = Inr True)
            then [Sell (quantity (position st))] else []) \<and>
         position (state_after (main env st)) =
           (if prediction = - 1 \<and>
               (case live_price of
                  None \<Rightarrow> False
                | Some p \<Rightarrow> should_close_position (position st) p = Inr True) \<and>
               \<not> isl (create_order env (Sell (quantity (position st))))
            then close_position (position st) else position st)"
proof -
  let ?st1 = "st\<lparr>last_trade_time := Some (clock_set env)\<rparr>"
  have m: "main env st =
      main_decide (create_order env) ?st1 live_price usdt_balance prediction confidence"
    using assms(1,2) by (simp add: main_gate_open)
  have pos: "in_position (position ?st1)" "position ?st1 = position st"
    using assms(4) by simp_all
  show ?thesis
    unfolding m main_decide_long [OF assms(3) pos(1)]
    by (auto simp: returns_def raises_def split: option.splits sum.splits bool.splits)
qed


text \<open>The sample environment passes the gate and yields the constant model's signal.\<close>

lemma sample_gate_open:
  "fst (can_trade (last_trade_time long_state)
         (clock_test (sample_env price balance book m submit))
         (clock_set (sample_env price balance book m submit)))"
  by (simp add: long_state_def can_trade_def)

lemma sample_fetch:
  "main_fetch (sample_env price balance (30, 10) (constant_model cls [0.10, 0.15, 0.75]) submit)
     = Inr (price, balance, cls, 0.75)"
  by (simp add: main_fetch_def sample_env_def calculate_indicators_def predict_def
        constant_model_def add_target_def label_row_def horizon_default_def Let_def
        List.map_filter_def sample_columns_def sample_bars_def sample_bar_def
        upt_conv_Cons np_div_def bar.defs row.defs)

text \<open>
  The position entered at 100: class -1 at 100.8 sells and closes; class -1 at 99.9
  holds; class 0 at 100.8 holds.
\<close>

theorem C5_sell_iff_witness:
  "in_position (position long_state) \<and> (0.75::real) \<ge> 0.6 \<and>
   orders (main (sample_env (Some 100.8) 1000 (30, 10) (constant_model (- 1) [0.10, 0.15, 0.75])
             accept) long_state) = [Sell (Some 2)] \<and>
   position (state_after (main (sample_env (Some 100.8) 1000 (30, 10)
             (constant_model (- 1) [0.10, 0.15, 0.75]) accept) long_state))
     = PositionManager_init \<and>
   orders (main (sample_env (Some 99.9) 1000 (30, 10) (constant_model (- 1) [0.10, 0.15, 0.75])
             accept) long_state) = [] \<and>
   position (state_after (main (sample_env (Some 99.9) 1000 (30, 10)
             (constant_model (- 1) [0.10, 0.15, 0.75]) accept) long_state)) = long_100 \<and>
   orders (main (sample_env (Some 100.8) 1000 (30, 10) (constant_model 0 [0.10, 0.15, 0.75])
             accept) long_state) = [] \<and>
   position (state_after (main (sample_env (Some 100.8) 1000 (30, 10)
             (constant_model 0 [0.10, 0.15, 0.75]) accept) long_state)) = long_100"
proof -
  have long: "in_position (position long_state)"
    by (simp add: long_state_def long_100_def open_position_def)
  have conf: "(0.75::real) \<ge> 0.6" by simp
  have pos: "position long_state = long_100" by (simp add: long_state_def)
  have acc: "create_order (sample_env price balance book m accept) ord = Inr ''FILLED''"
    for price balance book m ord
    by (simp add: sample_env_def accept_def)
  note a = C5_sell_iff [OF sample_gate_open sample_fetch conf long,
      of "Some 100.8" 1000 "- 1" accept]
  note b = C5_sell_iff [OF sample_gate_open sample_fetch conf long,
      of "Some 99.9" 1000 "- 1" accept]
  note c = C5_sell_iff [OF sample_gate_open sample_fetch conf long,
      of "Some 100.8" 1000 0 accept]
  show ?thesis
    using a b c long
    by (simp add: pos acc should_close_position_def long_100_def open_position_def
          close_position_def PositionManager_init_def
          tp_multiplier_default_def sl_multiplier_default_def)
qed


lemma open_position_fields:
  "open_position self price qty tp_multiplier sl_multiplier =
     \<lparr>in_position = True, entry_price = Some price,
      take_profit = Some (price * tp_multiplier), stop_loss = Some (price * sl_multiplier),
      quantity = Some qty\<rparr>"
  by (cases self) (simp add: open_position_def)


lemma sample_gate_open_initial:
  "fst (can_trade (last_trade_time initial_state)
         (clock_test (sample_env price balance book m submit))
         (clock_set (sample_env price balance book m submit)))"
  by (simp add: initial_state_def can_trade_def)





subsection \<open>The loop\<close>

text \<open>
  What makes lines 157--168 raise: a failed fetch, an order book without volume, a
  history too short for a labelled row.
\<close>

lemma main_fetch_price_error: "get_price env = Inl e \<Longrightarrow> main_fetch env = Inl e"
  by (simp add: main_fetch_def)

lemma main_fetch_zero_volume:
  "get_price env = Inr lp \<Longrightarrow> get_usdt_balance env = Inr b \<Longrightarrow>
   get_order_book_stats env = Inr (bid_volume, ask_volume) \<Longrightarrow> bid_volume + ask_volume = 0 \<Longrightarrow>
   main_fetch env = Inl ZeroDivisionError"
  by (simp add: main_fetch_def)

lemma add_target_short: "length df \<le> horizon \<Longrightarrow> add_target df horizon = []"
proof -
  assume short: "length df \<le> horizon"
  have "set (add_target df horizon) = {}"
    using add_target_rows [of _ df horizon] short by fastforce
  then show ?thesis by simp
qed

lemma length_calculate_indicators:
  "calculate_indicators columns df bid_volume ask_volume = Inr df1 \<Longrightarrow> length df1 \<le> length df"
proof -
  assume "calculate_indicators columns df bid_volume ask_volume = Inr df1"
  then obtain f where "df1 = List.map_filter f [0..<length df]"
    by (auto simp: calculate_indicators_def Let_def split: if_splits)
  then have "length df1 \<le> length [0..<length df]"
    unfolding List.map_filter_def by (simp del: length_upt)
  then show ?thesis by simp
qed

lemma main_fetch_short_history:
  assumes "get_price env = Inr lp" and "get_usdt_balance env = Inr b"
    and "get_order_book_stats env = Inr (bid_volume, ask_volume)"
    and "bid_volume + ask_volume \<noteq> 0"
    and "get_historical_data env = Inr df0" and "length df0 \<le> 3"
    and "train_or_load_model env [] = Inr m"
  shows "main_fetch env = Inl IndexError"
proof -
  obtain df1 where df1: "calculate_indicators (columns_of env) df0 bid_volume ask_volume = Inr df1"
    using assms(4) by (simp add: calculate_indicators_def Let_def)
  from length_calculate_indicators [OF df1] assms(6) have "length df1 \<le> horizon_default"
    by (simp add: horizon_default_def)
  then have "add_target df1 horizon_default = []" by (rule add_target_short)
  then show ?thesis
    using assms df1 by (simp add: main_fetch_def predict_def)
qed

text \<open>One iteration of the loop.\<close>

lemma run_forever_raised:
  "raised (main env st) = Some e \<Longrightarrow> run_forever (env # envs) st = Inl e"
  by simp

lemma run_forever_returned:
  "raised (main env st) = None \<Longrightarrow>
   run_forever (env # envs) st = run_forever envs (state_after (main env st))"
  by simp

text \<open>
  C6, as the code has it. An exception raised by the order submission ends only that
  cycle: \<^verbatim>\<open>main\<close> returns and \<^verbatim>\<open>run_forever\<close> goes on with the next iteration. An
  exception raised while the snapshot and the signal are computed (a failed data fetch,
  an empty labelled frame, a zero bid+ask volume) is caught nowhere: it leaves
  \<^verbatim>\<open>main\<close> and ends \<^verbatim>\<open>run_forever\<close>.
\<close>

theorem C6_uncaught_errors_stop_the_loop:
  "(ord \<in> set (orders (main env st)) \<and> create_order env ord = Inl x \<longrightarrow>
      run_forever (env # envs) st = run_forever envs (state_after (main env st))) \<and>
   (fst (can_trade (last_trade_time st) (clock_test env) (clock_set env)) \<and>
    main_fetch env = Inl e \<longrightarrow>
      run_forever (env # envs) st = Inl e)"
proof (intro conjI impI)
  assume "ord \<in> set (orders (main env st)) \<and> create_order env ord = Inl x"
  then have "raised (main env st) = None"
    using main_failed_order [of ord env st x] by simp
  then show "run_forever (env # envs) st = run_forever envs (state_after (main env st))"
    by (rule run_forever_returned)
next
  assume "fst (can_trade (last_trade_time st) (clock_test env) (clock_set env)) \<and>
    main_fetch env = Inl e"
  then have "raised (main env st) = Some e"
    by (simp add: main_gate_open raises_def)
  then show "run_forever (env # envs) st = Inl e"
    by (rule run_forever_raised)
qed

text \<open>An order book with no volume on either side.\<close>

lemma sample_zero_volume_fetch:
  "main_fetch (sample_env price balance (0, 0) m submit) = Inl ZeroDivisionError"
  by (rule main_fetch_zero_volume [of _ price balance 0 0]) (simp_all add: sample_env_def)

text \<open>A rejected BUY lets the loop go on; an empty order book ends it.\<close>

theorem C6_uncaught_errors_stop_the_loop_witness:
  "Buy 200 \<in> set (orders (main (sample_env (Some 100) 1000 (30, 10)
        (constant_model 1 [0.10, 0.15, 0.75]) reject) initial_state)) \<and>
   reject (Buy 200) = Inl (ExternalError ''rejected'') \<and>
   run_forever
     [sample_env (Some 100) 1000 (30, 10) (constant_model 1 [0.10, 0.15, 0.75]) reject]
     initial_state
     = Inr \<lparr>position = PositionManager_init, last_trade_time = Some 0\<rparr> \<and>
   main_fetch (sample_env (Some 100) 1000 (0, 0) (constant_model 1 [0.10, 0.15, 0.75]) accept)
     = Inl ZeroDivisionError \<and>
   run_forever
     [sample_env (Some 100) 1000 (0, 0) (constant_model 1 [0.10, 0.15, 0.75]) accept]
     initial_state
     = Inl ZeroDivisionError"
proof -
  let ?m = "constant_model 1 [0.10, 0.15, 0.75]"
  let ?rej = "sample_env (Some 100) 1000 (30, 10) ?m reject"
  let ?zero = "sample_env (Some 100) 1000 (0, 0) ?m accept"
  have a: "Buy 200 \<in> set (orders (main ?rej initial_state))"
    by (subst sample_buy_rejected) simp
  have b: "create_order ?rej (Buy 200) = Inl (ExternalError ''rejected'')"
    by (simp add: sample_env_def reject_def)
  have c: "reject (Buy 200) = Inl (ExternalError ''rejected'')" by (simp add: reject_def)
  have after: "state_after (main ?rej initial_state)
      = \<lparr>position = PositionManager_init, last_trade_time = Some 0\<rparr>"
    by code_simp
  have z: "main_fetch ?zero = Inl ZeroDivisionError" by (rule sample_zero_volume_fetch)
  from C6_uncaught_errors_stop_the_loop [of "Buy 200" ?rej initial_state
      "ExternalError ''rejected''" "[]"] a b
  have 1: "run_forever [?rej] initial_state
      = Inr \<lparr>position = PositionManager_init, last_trade_time = Some 0\<rparr>"
    unfolding after by simp
  from C6_uncaught_errors_stop_the_loop [of _ ?zero initial_state _ "[]" ZeroDivisionError]
    sample_gate_open_initial z
  have 2: "run_forever [?zero] initial_state = Inl ZeroDivisionError"
    by blast
  from a c 1 z 2 show ?thesis by blast
qed

text \<open>
  C6 as stated fails when the order book is empty in the first of two iterations: the
  loop ends with \<^verbatim>\<open>ZeroDivisionError\<close> and the second iteration never runs.
\<close>

theorem C6_zero_volume_counterexample:
  "run_forever
     [sample_env (Some 100) 1000 (0, 0) (constant_model 1 [0.10, 0.15, 0.75]) accept,
      sample_env (Some 100) 1000 (30, 10) (constant_model 1 [0.10, 0.15, 0.75]) accept]
     initial_state
   = Inl ZeroDivisionError"
  by code_simp


subsection \<open>Opening and closing\<close>

text \<open>
  C7, as the code has it. \<^verbatim>\<open>open_position\<close> does not look at the state: whatever it
  was, the result is the new position (entry, quantity, take-profit, stop-loss from the
  arguments). \<^verbatim>\<open>close_position\<close> on a flat manager leaves it unchanged. A cycle that
  starts with \<^verbatim>\<open>in_position\<close> set leaves the position as it was or closes it: \<^verbatim>\<open>main\<close>
  never opens over an open position.
\<close>

theorem C7_open_overwrites_close_idempotent:
  "open_position self price qty tp_multiplier sl_multiplier =
     \<lparr>in_position = True, entry_price = Some price,
      take_profit = Some (price * tp_multiplier), stop_loss = Some (price * sl_multiplier),
      quantity = Some qty\<rparr> \<and>
   (is_flat self \<longrightarrow> close_position self = self) \<and>
   (in_position (position st) \<longrightarrow>
      position (state_after (main env st)) = position st \<or>
      position (state_after (main env st)) = close_position (position st))"
proof (intro conjI impI)
  show "open_position self price qty tp_multiplier sl_multiplier =
     \<lparr>in_position = True, entry_price = Some price,
      take_profit = Some (price * tp_multiplier), stop_loss = Some (price * sl_multiplier),
      quantity = Some qty\<rparr>"
    by (rule open_position_fields)
  show "close_position self = self" if "is_flat self"
    using that by (cases self) (simp add: is_flat_def close_position_def)
  show "position (state_after (main env st)) = position st \<or>
      position (state_after (main env st)) = close_position (position st)"
    if "in_position (position st)"
    using that by (rule main_in_position)
qed

text \<open>The flat manager, and a holding cycle from the position entered at 100.\<close>

theorem C7_open_overwrites_close_idempotent_witness:
  "is_flat PositionManager_init \<and> close_position PositionManager_init = PositionManager_init \<and>
   in_position (position long_state) \<and>
   position (state_after (main (sample_env (Some 100.8) 1000 (30, 10)
       (constant_model 1 [0.10, 0.15, 0.75]) accept) long_state)) = long_100"
proof -
  let ?env = "sample_env (Some 100.8) 1000 (30, 10) (constant_model 1 [0.10, 0.15, 0.75]) accept"
  have flat: "is_flat PositionManager_init"
    by (simp add: is_flat_def PositionManager_init_def)
  have long: "in_position (position long_state)"
    by (simp add: long_state_def long_100_def open_position_def)
  have pos: "position long_state = long_100" by (simp add: long_state_def)
  have kept: "position (state_after (main ?env long_state)) \<noteq> close_position long_100"
    by code_simp
  from C7_open_overwrites_close_idempotent [of PositionManager_init _ _ _ _ long_state ?env]
    flat long pos kept
  show ?thesis by simp
qed

text \<open>
  C7 as stated fails on the position entered at 100: opening again at 200 returns
  normally with a different position.
\<close>

theorem C7_reopen_counterexample:
  "is_long long_100 \<and>
   open_position long_100 200 1 tp_multiplier_default sl_multiplier_default \<noteq> long_100 \<and>
   entry_price (open_position long_100 200 1 tp_multiplier_default sl_multiplier_default)
     = Some 200 \<and>
   quantity (open_position long_100 200 1 tp_multiplier_default sl_multiplier_default)
     = Some 1"
  by (simp add: long_100_def open_position_def is_long_def PositionManager_init_def
        tp_multiplier_default_def sl_multiplier_default_def)



text \<open>
  C10. The constructor yields a consistent manager (\<^verbatim>\<open>in_position\<close> false and the four
  fields \<^verbatim>\<open>None\<close>, or \<^verbatim>\<open>in_position\<close> true and the four fields set), and
  \<^verbatim>\<open>open_position\<close> and \<^verbatim>\<open>close_position\<close> keep it consistent.
\<close>

theorem C10_field_consistency:
  "consistent PositionManager_init \<and>
   (consistent self \<longrightarrow> consistent (open_position self price qty tp_multiplier sl_multiplier)) \<and>
   (consistent self \<longrightarrow> consistent (close_position self))"
  by (simp add: consistent_def is_long_def is_flat_def PositionManager_init_def
        open_position_def close_position_def)

text \<open>Construct, open at 100, close.\<close>

theorem C10_field_consistency_witness:
  "consistent PositionManager_init \<and>
   consistent (open_position PositionManager_init 100 2 1.007 0.985) \<and>
   consistent (close_position (open_position PositionManager_init 100 2 1.007 0.985))"
proof -
  note init = C10_field_consistency [of PositionManager_init 100 2 "1.007" "0.985", THEN conjunct1]
  note opened = C10_field_consistency [of PositionManager_init 100 2 "1.007" "0.985",
      THEN conjunct2, THEN conjunct1, THEN mp, OF init]
  note closed = C10_field_consistency [of "open_position PositionManager_init 100 2 1.007 0.985",
      THEN conjunct2, THEN conjunct2, THEN mp, OF opened]
  from init opened closed show ?thesis by blast
qed

end
